theory Spec2Isabelle
  imports Main "HOL-Library.Sublist"
begin

section \<open>Python values, exceptions and string operations\<close>

text \<open>
  The plugin \<^verbatim>\<open>docker_machine.py\<close> is one class, \<^verbatim>\<open>InventoryModule\<close>, whose method
  \<^verbatim>\<open>_populate\<close> fills the inventory object of the host application. Every exception the
  code can raise is a value of \<open>exn\<close>. \<open>InventoryError\<close> and \<open>RuleError\<close> stand for the
  \<^verbatim>\<open>AnsibleError\<close> raised by the inventory object and by the inherited helpers for composed
  variables and groups; \<open>AnsibleError e\<close> is the exception built in lines 162-163,
  \<^verbatim>\<open>AnsibleError('Unable to fetch hosts from Docker machine, this was the original exception: %s' % to_native(e))\<close>,
  which carries the text of the exception \<open>e\<close> it replaces.
\<close>

datatype exn =
    IndexError | ValueError | TypeError | KeyError string | AttributeError
  | JSONDecodeError | CalledProcessError | FileNotFoundError | UnicodeDecodeError
  | InventoryError | RuleError
  | AnsibleError exn

text \<open>
  What \<^verbatim>\<open>json.loads\<close> returns: \<^verbatim>\<open>None\<close>, a bool, an integer, a string, a list or a dict
  (an association list in insertion order, looked up from the left). Fractional numbers
  are not modelled. A text is a \<open>string\<close>, so characters are limited to the code points
  0 to 255.
\<close>

datatype json =
    JNull | JBool bool | JInt int | JStr string
  | JList "json list" | JDict "(string \<times> json) list"

text \<open>Truth value of a Python object, for \<^verbatim>\<open>if host:\<close> and \<^verbatim>\<open>if group:\<close>.\<close>

fun truthy :: "json \<Rightarrow> bool" where
  "truthy JNull = False"
| "truthy (JBool b) = b"
| "truthy (JInt i) = (i \<noteq> 0)"
| "truthy (JStr s) = (s \<noteq> [])"
| "truthy (JList xs) = (xs \<noteq> [])"
| "truthy (JDict kvs) = (kvs \<noteq> [])"

text \<open>
  \<^verbatim>\<open>obj[key]\<close> with a string key: a dict raises \<^verbatim>\<open>KeyError\<close> for a missing key, every
  other value raises \<^verbatim>\<open>TypeError\<close>.
\<close>

fun py_getitem :: "json \<Rightarrow> string \<Rightarrow> exn + json" where
  "py_getitem (JDict kvs) k = (case map_of kvs k of None \<Rightarrow> Inl (KeyError k) | Some v \<Rightarrow> Inr v)"
| "py_getitem _ k = Inl TypeError"

text \<open>\<^verbatim>\<open>obj[k1][k2]\<close>, as in \<^verbatim>\<open>self.node_attrs['Driver']['MachineName']\<close>.\<close>

definition py_getitem2 :: "json \<Rightarrow> string \<Rightarrow> string \<Rightarrow> exn + json" where
  "py_getitem2 obj k1 k2 = (case py_getitem obj k1 of Inl e \<Rightarrow> Inl e | Inr d \<Rightarrow> py_getitem d k2)"

subsection \<open>str.strip and str.splitlines\<close>

text \<open>
  The characters \<^verbatim>\<open>str.strip()\<close> removes when called without argument: those for which
  \<^verbatim>\<open>str.isspace\<close> holds, here the ones below code point 256.
\<close>

definition is_space :: "char \<Rightarrow> bool" where
  "is_space c = ((of_char c :: nat) \<in> set [9, 10, 11, 12, 13, 28, 29, 30, 31, 32, 133, 160])"

definition py_strip :: "string \<Rightarrow> string" where
  "py_strip s = dropWhile is_space (rev (dropWhile is_space (rev s)))"

text \<open>
  The line boundaries of \<^verbatim>\<open>str.splitlines()\<close> below code point 256; \<^verbatim>\<open>\r\n\<close> counts as
  one boundary, and a boundary at the very end opens no further line.
\<close>

definition is_linebreak :: "char \<Rightarrow> bool" where
  "is_linebreak c = ((of_char c :: nat) \<in> set [10, 11, 12, 13, 28, 29, 30, 133])"

fun splitlines_aux :: "string \<Rightarrow> string \<Rightarrow> string list" where
  "splitlines_aux cur [] = (if cur = [] then [] else [cur])"
| "splitlines_aux cur [c] = (if is_linebreak c then [cur] else [cur @ [c]])"
| "splitlines_aux cur (c # d # cs) =
     (if c = CHR 0x0D \<and> d = CHR 0x0A then cur # splitlines_aux [] cs
      else if is_linebreak c then cur # splitlines_aux [] (d # cs)
      else splitlines_aux (cur @ [c]) (d # cs))"

definition py_splitlines :: "string \<Rightarrow> string list" where
  "py_splitlines s = splitlines_aux [] s"

subsection \<open>The operator in, str.split and unpacking\<close>

text \<open>\<^verbatim>\<open>sep in s\<close> on strings: \<open>sep\<close> occurs in \<open>s\<close> as a substring.\<close>

fun py_in :: "string \<Rightarrow> string \<Rightarrow> bool" where
  "py_in sep [] = (sep = [])"
| "py_in sep (c # cs) = (prefix sep (c # cs) \<or> py_in sep cs)"

text \<open>
  \<^verbatim>\<open>s.split(sep)\<close>: the text is cut at every occurrence of \<open>sep\<close>, found from left to
  right without overlap; an empty separator raises \<^verbatim>\<open>ValueError\<close>. In \<open>split_aux\<close> the
  argument \<open>cur\<close> is the piece collected so far.
\<close>

fun split_aux :: "string \<Rightarrow> string \<Rightarrow> string \<Rightarrow> string list" where
  "split_aux sep cur [] = [cur]"
| "split_aux sep cur (c # cs) =
     (if prefix sep (c # cs) then cur # split_aux sep [] (drop (length sep - 1) cs)
      else split_aux sep (cur @ [c]) cs)"

definition py_split :: "string \<Rightarrow> string \<Rightarrow> exn + string list" where
  "py_split s sep = (if sep = [] then Inl ValueError else Inr (split_aux sep [] s))"

subsection \<open>str.format\<close>

text \<open>
  Every format string of the file is literal text with replacement fields \<^verbatim>\<open>{N}\<close>, so a
  template is a list of pieces; \<^verbatim>\<open>'dm_{1}'\<close> is \<open>[Lit ''dm_'', Field 1]\<close>. Fields are
  numbered from 0: \<^verbatim>\<open>{N}\<close> with at most \<open>N\<close> positional arguments raises \<^verbatim>\<open>IndexError\<close>.
\<close>

datatype piece = Lit string | Field nat

fun py_format :: "piece list \<Rightarrow> string list \<Rightarrow> exn + string" where
  "py_format [] args = Inr []"
| "py_format (Lit s # ps) args =
     (case py_format ps args of Inl e \<Rightarrow> Inl e | Inr r \<Rightarrow> Inr (s @ r))"
| "py_format (Field n # ps) args =
     (if n < length args
      then (case py_format ps args of Inl e \<Rightarrow> Inl e | Inr r \<Rightarrow> Inr (args ! n @ r))
      else Inl IndexError)"

text \<open>The format strings of \<^verbatim>\<open>_populate\<close>, by line.\<close>

definition msg_inspecting :: "piece list" where
  "msg_inspecting = [Lit ''docker_machine inventory: inspecting machine '', Field 1]"

definition msg_querying_env :: "piece list" where
  "msg_querying_env = [Lit ''docker_machine inventory: querying env for machine '', Field 1]"

definition env_pattern :: "piece list" where
  "env_pattern = [Field 1, Lit [CHR ''='', CHR 0x22, CHR ''('', CHR ''['', CHR ''^'', CHR 0x22,
     CHR '']'', CHR ''+'', CHR '')'', CHR 0x22]]"

definition dm_var :: "piece list" where
  "dm_var = [Lit ''dm_'', Field 1]"

definition msg_parsing_tags :: "piece list" where
  "msg_parsing_tags = [Lit ''docker_machine inventory: parsing tags for machine '', Field 1,
     Lit '' with tags '', Field 2]"

definition dm_tag_var :: "piece list" where
  "dm_tag_var = [Lit ''dm_tag_'', Field 1]"

definition msg_composite :: "piece list" where
  "msg_composite = [Lit ''docker_machine inventory: setting composite vars for machine '', Field 1,
     Lit '' with compose '', Field 2]"

definition msg_groups :: "piece list" where
  "msg_groups = [Lit ''docker_machine inventory: adding host to composed groups for machine '',
     Field 1, Lit '' with groups '', Field 2]"

definition msg_keyed_groups :: "piece list" where
  "msg_keyed_groups = [Lit ''docker_machine inventory: adding host to composed groups for machine '',
     Field 1, Lit '' with keyed_groups '', Field 2]"

definition msg_added :: "piece list" where
  "msg_added = [Lit ''docker_machine inventory: added machine '', Field 1]"

section \<open>The inventory object and the effects of the plugin\<close>

text \<open>
  The inventory object belongs to the host application, not to this repository. It is
  modelled by what the plugin can observe of it: the groups with their member hosts in
  the order they were added, the hosts, and the variables of each group and host.
\<close>

datatype entity = Group_entity string | Host_entity string

record inventory =
  groups :: "string \<rightharpoonup> string list"
  hosts :: "string list"
  vars :: "entity \<Rightarrow> string \<rightharpoonup> json"

definition empty_inventory :: inventory where
  "empty_inventory = \<lparr>groups = Map.empty, hosts = [], vars = (\<lambda>_. Map.empty)\<rparr>"

text \<open>
  A statement of \<^verbatim>\<open>_populate\<close> either returns a value or raises, and it may change the
  inventory before it raises: the inventory is updated in place, so what was changed
  before an exception stays changed. An action maps the inventory to the outcome and
  the inventory after it.
\<close>

type_synonym 'a act = "inventory \<Rightarrow> (exn + 'a) \<times> inventory"

definition ret :: "'a \<Rightarrow> 'a act" where
  "ret x = (\<lambda>s. (Inr x, s))"

definition lift :: "exn + 'a \<Rightarrow> 'a act" where
  "lift r = (\<lambda>s. (r, s))"

definition bnd :: "'a act \<Rightarrow> ('a \<Rightarrow> 'b act) \<Rightarrow> 'b act" where
  "bnd m f = (\<lambda>s. case m s of (Inl e, s') \<Rightarrow> (Inl e, s') | (Inr x, s') \<Rightarrow> f x s')"

text \<open>A \<^verbatim>\<open>for\<close> loop: the first iteration that raises ends the loop.\<close>

fun for_each :: "('a \<Rightarrow> unit act) \<Rightarrow> 'a list \<Rightarrow> unit act" where
  "for_each f [] s = (Inr (), s)"
| "for_each f (x # xs) s =
     (case f x s of (Inl e, s') \<Rightarrow> (Inl e, s') | (Inr _, s') \<Rightarrow> for_each f xs s')"

text \<open>
  \<^verbatim>\<open>try: ... except Exception as e: raise AnsibleError(...)\<close> of lines 90 and 161-163.
\<close>

definition try_except :: "'a act \<Rightarrow> 'a act" where
  "try_except m = (\<lambda>s. case m s of (Inl e, s') \<Rightarrow> (Inl (AnsibleError e), s') | (Inr x, s') \<Rightarrow> (Inr x, s'))"

text \<open>
  \<^verbatim>\<open>display.debug(msg)\<close> has no effect on the inventory; its argument is evaluated first,
  and that evaluation may raise.
\<close>

definition debug :: "exn + string \<Rightarrow> unit act" where
  "debug msg = bnd (lift msg) (\<lambda>_. ret ())"

subsection \<open>Operations of the inventory object\<close>

definition insert_new :: "string \<Rightarrow> string list \<Rightarrow> string list" where
  "insert_new h hs = (if h \<in> set hs then hs else hs @ [h])"

text \<open>\<^verbatim>\<open>inventory.add_group(group)\<close>: the name has to be a non-empty string.\<close>

fun add_group :: "json \<Rightarrow> unit act" where
  "add_group (JStr g) s =
     (if g = [] then (Inl InventoryError, s)
      else if groups s g = None then (Inr (), s\<lparr>groups := (groups s)(g \<mapsto> [])\<rparr>)
      else (Inr (), s))"
| "add_group _ s = (Inl InventoryError, s)"

text \<open>
  \<^verbatim>\<open>inventory.add_host(host, group=None)\<close>: the host name has to be a non-empty string,
  and a group that is given (one that is not false) has to exist.
\<close>

fun add_host :: "json \<Rightarrow> json \<Rightarrow> unit act" where
  "add_host (JStr h) grp s =
     (if h = [] then (Inl InventoryError, s)
      else if \<not> truthy grp then (Inr (), s\<lparr>hosts := insert_new h (hosts s)\<rparr>)
      else (case grp of
          JStr g \<Rightarrow> (case groups s g of
              None \<Rightarrow> (Inl InventoryError, s)
            | Some members \<Rightarrow>
                (Inr (), s\<lparr>groups := (groups s)(g \<mapsto> insert_new h members),
                           hosts := insert_new h (hosts s)\<rparr>))
        | JList _ \<Rightarrow> (Inl TypeError, s)
        | JDict _ \<Rightarrow> (Inl TypeError, s)
        | _ \<Rightarrow> (Inl InventoryError, s)))"
| "add_host _ grp s = (Inl InventoryError, s)"

text \<open>
  \<^verbatim>\<open>inventory.set_variable(entity, varname, value)\<close>: all three arguments are required, so
  a call without \<open>value\<close> (\<open>None\<close> below) raises \<^verbatim>\<open>TypeError\<close>. The entity is looked
  up among the groups first, then among the hosts.
\<close>

fun set_variable :: "json \<Rightarrow> string \<Rightarrow> json option \<Rightarrow> unit act" where
  "set_variable entity name None s = (Inl TypeError, s)"
| "set_variable (JStr e) name (Some v) s =
     (if groups s e \<noteq> None
      then (Inr (), s\<lparr>vars := (vars s)(Group_entity e := (vars s (Group_entity e))(name \<mapsto> v))\<rparr>)
      else if e \<in> set (hosts s)
      then (Inr (), s\<lparr>vars := (vars s)(Host_entity e := (vars s (Host_entity e))(name \<mapsto> v))\<rparr>)
      else (Inl InventoryError, s))"
| "set_variable (JList _) name (Some v) s = (Inl TypeError, s)"
| "set_variable (JDict _) name (Some v) s = (Inl TypeError, s)"
| "set_variable _ name (Some v) s = (Inl InventoryError, s)"

section \<open>What the plugin reads: the external tool, the libraries, the options\<close>

text \<open>
  \<open>subprocess w argv\<close> is the outcome of \<^verbatim>\<open>subprocess.check_output(argv)\<close> followed by
  \<^verbatim>\<open>.decode('utf-8')\<close>: the program cannot be started, or it exits with a status and its
  standard output, which is \<open>None\<close> when the bytes are not UTF-8 and the decoded text
  otherwise. \<open>json_loads\<close> is \<^verbatim>\<open>json.loads\<close> (\<open>None\<close> when the text does not parse),
  \<open>re_search w pat text\<close> is group 1 of \<^verbatim>\<open>re.search(pat, text)\<close> (\<open>None\<close> when there is
  no match), \<open>py_str\<close> is \<^verbatim>\<open>str\<close> on a value put into a message. The remaining
  fields are the options read with \<^verbatim>\<open>get_option\<close> and the three inherited helpers for
  composed variables, conditional groups and keyed groups. The theorems below hold for
  every such world.
\<close>

datatype proc_result = NotFound | Exited int "string option"

record world =
  subprocess :: "string list \<Rightarrow> proc_result"
  json_loads :: "string \<Rightarrow> json option"
  re_search :: "string \<Rightarrow> string \<Rightarrow> string option"
  py_str :: "json \<Rightarrow> string"
  split_tags :: bool
  split_separator :: string
  verbose_output :: bool
  strict :: json
  compose :: json
  groups_option :: json
  keyed_groups :: json
  set_composite_vars :: "json \<Rightarrow> json \<Rightarrow> json \<Rightarrow> json \<Rightarrow> unit act"
  add_host_to_composed_groups :: "json \<Rightarrow> json \<Rightarrow> json \<Rightarrow> json \<Rightarrow> unit act"
  add_host_to_keyed_groups :: "json \<Rightarrow> json \<Rightarrow> json \<Rightarrow> json \<Rightarrow> unit act"

section \<open>InventoryModule\<close>

subsection \<open>_run_command\<close>

text \<open>
  \<^verbatim>\<open>subprocess.check_output(["docker-machine"] + list(args)).decode('utf-8').strip()\<close>:
  a non-zero exit status raises before the output is decoded.
\<close>

definition run_command :: "world \<Rightarrow> string list \<Rightarrow> exn + string" where
  "run_command w args =
     (case subprocess w (''docker-machine'' # args) of
        NotFound \<Rightarrow> Inl FileNotFoundError
      | Exited rc out \<Rightarrow>
          if rc \<noteq> 0 then Inl CalledProcessError
          else (case out of None \<Rightarrow> Inl UnicodeDecodeError | Some s \<Rightarrow> Inr (py_strip s)))"

subsection \<open>_populate: the statements for one node\<close>

text \<open>Line 95: \<^verbatim>\<open>json.loads(self._run_command('inspect', self.node))\<close>.\<close>

definition inspect_node :: "world \<Rightarrow> string \<Rightarrow> exn + json" where
  "inspect_node w node =
     (case run_command w [''inspect'', node] of
        Inl e \<Rightarrow> Inl e
      | Inr out \<Rightarrow> (case json_loads w out of None \<Rightarrow> Inl JSONDecodeError | Some v \<Rightarrow> Inr v))"

text \<open>
  Lines 97-101: the host key \<^verbatim>\<open>id\<close> is the descriptor's \<^verbatim>\<open>Driver.MachineName\<close>; the host is
  added, then the driver's group, then the host is put into that group and into \<^verbatim>\<open>all\<close>.
\<close>

definition register_host :: "json \<Rightarrow> json act" where
  "register_host attrs =
     bnd (lift (py_getitem2 attrs ''Driver'' ''MachineName'')) (\<lambda>host_id.
     bnd (add_host host_id JNull) (\<lambda>_.
     bnd (lift (py_getitem attrs ''DriverName'')) (\<lambda>driver.
     bnd (add_group driver) (\<lambda>_.
     bnd (lift (py_getitem attrs ''DriverName'')) (\<lambda>driver'.
     bnd (add_host host_id driver') (\<lambda>_.
     bnd (add_host host_id (JStr ''all'')) (\<lambda>_.
     ret host_id)))))))"

text \<open>Lines 104-108: the connection variables.\<close>

definition set_from_driver :: "json \<Rightarrow> json \<Rightarrow> string \<Rightarrow> string \<Rightarrow> unit act" where
  "set_from_driver attrs host_id name field =
     bnd (lift (py_getitem2 attrs ''Driver'' field)) (\<lambda>v. set_variable host_id name (Some v))"

definition set_connection_vars :: "json \<Rightarrow> json \<Rightarrow> unit act" where
  "set_connection_vars attrs host_id =
     bnd (set_from_driver attrs host_id ''ansible_host'' ''IPAddress'') (\<lambda>_.
     bnd (set_from_driver attrs host_id ''ansible_port'' ''SSHPort'') (\<lambda>_.
     bnd (set_from_driver attrs host_id ''ansible_user'' ''SSHUser'') (\<lambda>_.
     bnd (set_variable host_id ''ansible_ssh_common_args'' (Some (JStr ''-o StrictHostKeyChecking=no''))) (\<lambda>_.
     set_from_driver attrs host_id ''ansible_ssh_private_key_file'' ''SSHKeyPath''))))"

text \<open>
  Line 112: \<^verbatim>\<open>self._run_command('env', '--shell=bash', id)\<close>; an argument that is not a
  string makes \<^verbatim>\<open>subprocess\<close> raise \<^verbatim>\<open>TypeError\<close>.
\<close>

definition env_query :: "world \<Rightarrow> json \<Rightarrow> exn + string" where
  "env_query w host_id =
     (case host_id of JStr name \<Rightarrow> run_command w [''env'', ''--shell=bash'', name] | _ \<Rightarrow> Inl TypeError)"

text \<open>
  Lines 122-124. The search pattern and the variable name are built with
  \<^verbatim>\<open>str.format\<close>; \<^verbatim>\<open>.group(1)\<close> on the \<^verbatim>\<open>None\<close> of a failed search raises
  \<^verbatim>\<open>AttributeError\<close>.
\<close>

definition env_var_names :: "string list" where
  "env_var_names = [''DOCKER_TLS_VERIFY'', ''DOCKER_HOST'', ''DOCKER_CERT_PATH'', ''DOCKER_MACHINE_NAME'']"

definition env_var_value :: "world \<Rightarrow> string \<Rightarrow> string \<Rightarrow> exn + string" where
  "env_var_value w env_out env_var_name =
     (case py_format env_pattern [env_var_name] of
        Inl e \<Rightarrow> Inl e
      | Inr pat \<Rightarrow> (case re_search w pat env_out of None \<Rightarrow> Inl AttributeError | Some v \<Rightarrow> Inr v))"

definition set_env_var :: "world \<Rightarrow> json \<Rightarrow> string \<Rightarrow> string \<Rightarrow> unit act" where
  "set_env_var w host_id env_out env_var_name =
     bnd (lift (env_var_value w env_out env_var_name)) (\<lambda>env_var_value.
     bnd (lift (py_format dm_var [env_var_name])) (\<lambda>var.
     set_variable host_id var (Some (JStr env_var_value))))"

definition set_env_vars :: "world \<Rightarrow> json \<Rightarrow> string \<Rightarrow> unit act" where
  "set_env_vars w host_id env_out = for_each (set_env_var w host_id env_out) env_var_names"

text \<open>
  Lines 131-136, one element \<open>kv_pair\<close> of \<^verbatim>\<open>tags.split(',')\<close>. \<open>tag_entry\<close> is the branch
  taken in line 132 and, in the first branch, the unpacking \<^verbatim>\<open>k, v = kv_pair.split(split_separator)\<close>,
  which raises \<^verbatim>\<open>ValueError\<close> unless the split gives exactly two pieces.
\<close>

datatype tag_entry = Bare_tag string | Pair_tag string string

definition tag_entry :: "bool \<Rightarrow> string \<Rightarrow> string \<Rightarrow> exn + tag_entry" where
  "tag_entry split_enabled sep kv_pair =
     (if split_enabled \<and> py_in sep kv_pair
      then (case py_split kv_pair sep of
              Inl e \<Rightarrow> Inl e
            | Inr [k, v] \<Rightarrow> Inr (Pair_tag k v)
            | Inr _ \<Rightarrow> Inl ValueError)
      else Inr (Bare_tag kv_pair))"

definition set_tag_var :: "world \<Rightarrow> json \<Rightarrow> string \<Rightarrow> unit act" where
  "set_tag_var w host_id kv_pair =
     bnd (lift (tag_entry (split_tags w) (split_separator w) kv_pair)) (\<lambda>entry.
       case entry of
         Pair_tag k v \<Rightarrow>
           bnd (lift (py_format dm_tag_var [k])) (\<lambda>var. set_variable host_id var (Some (JStr v)))
       | Bare_tag name \<Rightarrow>
           bnd (lift (py_format dm_tag_var [name])) (\<lambda>var. set_variable host_id var None))"

text \<open>\<^verbatim>\<open>tags.split(',')\<close>: only a string has the method.\<close>

definition tags_split :: "json \<Rightarrow> exn + string list" where
  "tags_split tags = (case tags of JStr raw \<Rightarrow> py_split raw '','' | _ \<Rightarrow> Inl AttributeError)"

text \<open>Lines 127-136.\<close>

definition set_tag_vars :: "world \<Rightarrow> json \<Rightarrow> string \<Rightarrow> json \<Rightarrow> unit act" where
  "set_tag_vars w attrs node host_id =
     bnd (lift (py_getitem2 attrs ''Driver'' ''Tags'')) (\<lambda>tags.
     bnd (debug (py_format msg_parsing_tags [node, py_str w tags])) (\<lambda>_.
     bnd (lift (tags_split tags)) (\<lambda>kv_pairs.
     for_each (set_tag_var w host_id) kv_pairs)))"

text \<open>Lines 138-139.\<close>

definition set_verbose :: "world \<Rightarrow> json \<Rightarrow> json \<Rightarrow> unit act" where
  "set_verbose w attrs host_id =
     (if verbose_output w then set_variable host_id ''docker_machine_node_attributes'' (Some attrs)
      else ret ())"

text \<open>Lines 142-159: the inherited helpers, each after a message, and the last message.\<close>

definition apply_constructed :: "world \<Rightarrow> json \<Rightarrow> string \<Rightarrow> json \<Rightarrow> unit act" where
  "apply_constructed w attrs node host_id =
     bnd (debug (py_format msg_composite [node, py_str w (compose w)])) (\<lambda>_.
     bnd (set_composite_vars w (compose w) attrs host_id (strict w)) (\<lambda>_.
     bnd (debug (py_format msg_groups [node, py_str w (groups_option w)])) (\<lambda>_.
     bnd (add_host_to_composed_groups w (groups_option w) attrs host_id (strict w)) (\<lambda>_.
     bnd (debug (py_format msg_keyed_groups [node, py_str w (keyed_groups w)])) (\<lambda>_.
     bnd (add_host_to_keyed_groups w (keyed_groups w) attrs host_id (strict w)) (\<lambda>_.
     debug (py_format msg_added [py_str w host_id])))))))"

text \<open>The body of the loop, lines 94-159.\<close>

definition process_node :: "world \<Rightarrow> string \<Rightarrow> unit act" where
  "process_node w node =
     bnd (debug (py_format msg_inspecting [node])) (\<lambda>_.
     bnd (lift (inspect_node w node)) (\<lambda>attrs.
     bnd (register_host attrs) (\<lambda>host_id.
     bnd (set_connection_vars attrs host_id) (\<lambda>_.
     bnd (debug (py_format msg_querying_env [node])) (\<lambda>_.
     bnd (lift (env_query w host_id)) (\<lambda>env_out.
     bnd (set_env_vars w host_id env_out) (\<lambda>_.
     bnd (set_tag_vars w attrs node host_id) (\<lambda>_.
     bnd (set_verbose w attrs host_id) (\<lambda>_.
     apply_constructed w attrs node host_id)))))))))"

subsection \<open>_populate\<close>

text \<open>Line 92: \<^verbatim>\<open>self._run_command('ls', '-q').splitlines()\<close>.\<close>

definition list_machines :: "world \<Rightarrow> exn + string list" where
  "list_machines w =
     (case run_command w [''ls'', ''-q''] of Inl e \<Rightarrow> Inl e | Inr out \<Rightarrow> Inr (py_splitlines out))"

text \<open>
  Lines 88-163: the group \<^verbatim>\<open>all\<close> is added before the \<^verbatim>\<open>try\<close>; the listing and the loop
  over the nodes are inside it.
\<close>

definition populate :: "world \<Rightarrow> unit act" where
  "populate w =
     bnd (add_group (JStr ''all'')) (\<lambda>_.
     try_except (bnd (lift (list_machines w)) (\<lambda>nodes. for_each (process_node w) nodes)))"

section \<open>Concrete runs\<close>

text \<open>
  A run is fixed by three tables: the output of the tool for each argument vector it
  answers with exit status 0 (any other call exits with status 1), the value
  \<^verbatim>\<open>json.loads\<close> gives for each text it parses, and group 1 of \<^verbatim>\<open>re.search\<close> for each
  pattern and text that match. No rules for composed variables or groups are configured,
  so the three helpers do nothing.
\<close>

definition table_world ::
  "(string list \<times> string) list \<Rightarrow> (string \<times> json) list \<Rightarrow> ((string \<times> string) \<times> string) list
     \<Rightarrow> bool \<Rightarrow> string \<Rightarrow> world" where
  "table_world outputs documents matches split_enabled sep =
     \<lparr>subprocess = (\<lambda>argv. case map_of outputs argv of
                        None \<Rightarrow> Exited 1 (Some [])
                      | Some out \<Rightarrow> Exited 0 (Some out)),
      json_loads = map_of documents,
      re_search = (\<lambda>pat text. map_of matches (pat, text)),
      py_str = (\<lambda>v. case v of JStr t \<Rightarrow> t | _ \<Rightarrow> ''?''),
      split_tags = split_enabled,
      split_separator = sep,
      verbose_output = True,
      strict = JBool False,
      compose = JDict [],
      groups_option = JDict [],
      keyed_groups = JList [],
      set_composite_vars = (\<lambda>_ _ _ _. ret ()),
      add_host_to_composed_groups = (\<lambda>_ _ _ _. ret ()),
      add_host_to_keyed_groups = (\<lambda>_ _ _ _. ret ())\<rparr>"

definition quoted :: "string \<Rightarrow> string" where
  "quoted t = CHR 0x22 # t @ [CHR 0x22]"

definition export_line :: "string \<Rightarrow> string \<Rightarrow> string" where
  "export_line name val = ''export '' @ name @ ''='' @ quoted val @ [CHR 0x0A]"

text \<open>The regular expression of line 123 for a name, as it would be with the name filled in.\<close>

definition pattern_for :: "string \<Rightarrow> string" where
  "pattern_for name = name @ [CHR ''='', CHR 0x22, CHR ''('', CHR ''['', CHR ''^'', CHR 0x22,
     CHR '']'', CHR ''+'', CHR '')'', CHR 0x22]"

subsection \<open>The run of the end-to-end scenario\<close>

definition routinator_json :: string where
  "routinator_json = concat
     [''{'', quoted ''Driver'', '':{'',
        quoted ''MachineName'', '':'', quoted ''routinator'', '','',
        quoted ''IPAddress'', '':'', quoted ''134.209.204.160'', '','',
        quoted ''SSHPort'', '':22,'',
        quoted ''SSHUser'', '':'', quoted ''root'', '','',
        quoted ''SSHKeyPath'', '':'', quoted ''/root/.ssh/id_rsa'', '','',
        quoted ''Tags'', '':'', quoted ''gantry_component:routinator,env:prod'',
      ''},'', quoted ''DriverName'', '':'', quoted ''digitalocean'', ''}'']"

definition routinator_descriptor :: json where
  "routinator_descriptor = JDict
     [(''Driver'', JDict
         [(''MachineName'', JStr ''routinator''),
          (''IPAddress'', JStr ''134.209.204.160''),
          (''SSHPort'', JInt 22),
          (''SSHUser'', JStr ''root''),
          (''SSHKeyPath'', JStr ''/root/.ssh/id_rsa''),
          (''Tags'', JStr ''gantry_component:routinator,env:prod'')]),
      (''DriverName'', JStr ''digitalocean'')]"

definition routinator_env :: string where
  "routinator_env = concat
     [export_line ''DOCKER_TLS_VERIFY'' ''1'',
      export_line ''DOCKER_HOST'' ''tcp://134.209.204.160:2376'',
      export_line ''DOCKER_CERT_PATH'' ''/root/.docker/machine/machines/routinator'',
      export_line ''DOCKER_MACHINE_NAME'' ''routinator'']"

definition routinator_world :: world where
  "routinator_world = table_world
     [([''docker-machine'', ''ls'', ''-q''], ''routinator'' @ [CHR 0x0A]),
      ([''docker-machine'', ''inspect'', ''routinator''], routinator_json @ [CHR 0x0A]),
      ([''docker-machine'', ''env'', ''--shell=bash'', ''routinator''], routinator_env)]
     [(routinator_json, routinator_descriptor)]
     [((pattern_for ''DOCKER_TLS_VERIFY'', py_strip routinator_env), ''1''),
      ((pattern_for ''DOCKER_HOST'', py_strip routinator_env), ''tcp://134.209.204.160:2376''),
      ((pattern_for ''DOCKER_CERT_PATH'', py_strip routinator_env),
         ''/root/.docker/machine/machines/routinator''),
      ((pattern_for ''DOCKER_MACHINE_NAME'', py_strip routinator_env), ''routinator'')]
     True '':''"

text \<open>The inventory the scenario expects.\<close>

definition in_group :: "inventory \<Rightarrow> string \<Rightarrow> string \<Rightarrow> bool" where
  "in_group s g h = (case groups s g of None \<Rightarrow> False | Some members \<Rightarrow> h \<in> set members)"

definition scenario_expected :: "inventory \<Rightarrow> bool" where
  "scenario_expected s =
     (''routinator'' \<in> set (hosts s)
      \<and> in_group s ''all'' ''routinator''
      \<and> in_group s ''digitalocean'' ''routinator''
      \<and> vars s (Host_entity ''routinator'') ''ansible_host'' = Some (JStr ''134.209.204.160'')
      \<and> vars s (Host_entity ''routinator'') ''dm_DOCKER_HOST'' = Some (JStr ''tcp://134.209.204.160:2376'')
      \<and> vars s (Host_entity ''routinator'') ''dm_tag_gantry_component'' = Some (JStr ''routinator'')
      \<and> vars s (Host_entity ''routinator'') ''dm_tag_env'' = Some (JStr ''prod''))"


subsection \<open>Further runs\<close>

text \<open>A descriptor and its JSON text for a machine name and a driver, without tags.\<close>

definition descriptor :: "string \<Rightarrow> string \<Rightarrow> json" where
  "descriptor name driver = JDict
     [(''Driver'', JDict
         [(''MachineName'', JStr name),
          (''IPAddress'', JStr ''10.0.0.1''),
          (''SSHPort'', JInt 22),
          (''SSHUser'', JStr ''root''),
          (''SSHKeyPath'', JStr ''/root/.ssh/id_rsa''),
          (''Tags'', JStr [])]),
      (''DriverName'', JStr driver)]"

definition descriptor_json :: "string \<Rightarrow> string \<Rightarrow> string" where
  "descriptor_json name driver = concat
     [''{'', quoted ''Driver'', '':{'',
        quoted ''MachineName'', '':'', quoted name, '','',
        quoted ''IPAddress'', '':'', quoted ''10.0.0.1'', '','',
        quoted ''SSHPort'', '':22,'',
        quoted ''SSHUser'', '':'', quoted ''root'', '','',
        quoted ''SSHKeyPath'', '':'', quoted ''/root/.ssh/id_rsa'', '','',
        quoted ''Tags'', '':'', quoted [],
      ''},'', quoted ''DriverName'', '':'', quoted driver, ''}'']"

text \<open>The tool lists nothing: its output is one empty line.\<close>

definition empty_listing_world :: world where
  "empty_listing_world = table_world
     [([''docker-machine'', ''ls'', ''-q''], [CHR 0x0A])] [] [] False '':''"

text \<open>The tool lists \<^verbatim>\<open>node-a\<close>, and the descriptor it returns for it says \<^verbatim>\<open>node-b\<close>.\<close>

definition mismatch_world :: world where
  "mismatch_world = table_world
     [([''docker-machine'', ''ls'', ''-q''], ''node-a'' @ [CHR 0x0A]),
      ([''docker-machine'', ''inspect'', ''node-a''], descriptor_json ''node-b'' ''generic''),
      ([''docker-machine'', ''env'', ''--shell=bash'', ''node-b''],
         export_line ''DOCKER_TLS_VERIFY'' ''1'')]
     [(descriptor_json ''node-b'' ''generic'', descriptor ''node-b'' ''generic'')]
     [((pattern_for ''DOCKER_TLS_VERIFY'', py_strip (export_line ''DOCKER_TLS_VERIFY'' ''1'')), ''1'')]
     False '':''"

text \<open>
  The tool lists \<^verbatim>\<open>alpha\<close> and \<^verbatim>\<open>beta\<close>; the env text of \<^verbatim>\<open>alpha\<close> has no line for
  \<^verbatim>\<open>DOCKER_HOST\<close>, the one of \<^verbatim>\<open>beta\<close> has all four lines.
\<close>

definition alpha_env :: string where
  "alpha_env = concat
     [export_line ''DOCKER_TLS_VERIFY'' ''1'',
      export_line ''DOCKER_CERT_PATH'' ''/root/.docker/machine/machines/alpha'',
      export_line ''DOCKER_MACHINE_NAME'' ''alpha'']"

definition beta_env :: string where
  "beta_env = concat
     [export_line ''DOCKER_HOST'' ''tcp://10.0.0.1:2376'',
      export_line ''DOCKER_TLS_VERIFY'' ''1'',
      export_line ''DOCKER_MACHINE_NAME'' ''beta'',
      export_line ''DOCKER_CERT_PATH'' ''/root/.docker/machine/machines/beta'']"

definition two_nodes_world :: world where
  "two_nodes_world = table_world
     [([''docker-machine'', ''ls'', ''-q''], ''alpha'' @ [CHR 0x0A] @ ''beta'' @ [CHR 0x0A]),
      ([''docker-machine'', ''inspect'', ''alpha''], descriptor_json ''alpha'' ''generic''),
      ([''docker-machine'', ''inspect'', ''beta''], descriptor_json ''beta'' ''generic''),
      ([''docker-machine'', ''env'', ''--shell=bash'', ''alpha''], alpha_env),
      ([''docker-machine'', ''env'', ''--shell=bash'', ''beta''], beta_env)]
     [(descriptor_json ''alpha'' ''generic'', descriptor ''alpha'' ''generic''),
      (descriptor_json ''beta'' ''generic'', descriptor ''beta'' ''generic'')]
     [((pattern_for ''DOCKER_TLS_VERIFY'', py_strip alpha_env), ''1''),
      ((pattern_for ''DOCKER_CERT_PATH'', py_strip alpha_env), ''/root/.docker/machine/machines/alpha''),
      ((pattern_for ''DOCKER_MACHINE_NAME'', py_strip alpha_env), ''alpha''),
      ((pattern_for ''DOCKER_TLS_VERIFY'', py_strip beta_env), ''1''),
      ((pattern_for ''DOCKER_HOST'', py_strip beta_env), ''tcp://10.0.0.1:2376''),
      ((pattern_for ''DOCKER_CERT_PATH'', py_strip beta_env), ''/root/.docker/machine/machines/beta''),
      ((pattern_for ''DOCKER_MACHINE_NAME'', py_strip beta_env), ''beta'')]
     False '':''"

text \<open>The tool lists \<^verbatim>\<open>routinator\<close>, and its answer to \<^verbatim>\<open>inspect\<close> is not JSON.\<close>

definition malformed_world :: world where
  "malformed_world = table_world
     [([''docker-machine'', ''ls'', ''-q''], ''routinator'' @ [CHR 0x0A]),
      ([''docker-machine'', ''inspect'', ''routinator''], ''Host does not exist'')]
     [] [] False '':''"

text \<open>
  The output of the tool starts with two spaces; the program is missing; it prints bytes
  that are not UTF-8.
\<close>

definition indented_world :: world where
  "indented_world = table_world
     [([''docker-machine'', ''ls'', ''-q''], ''  routinator '' @ [CHR 0x0A])] [] [] False '':''"

definition missing_tool_world :: world where
  "missing_tool_world = indented_world\<lparr>subprocess := (\<lambda>argv. NotFound)\<rparr>"

definition undecodable_world :: world where
  "undecodable_world = indented_world\<lparr>subprocess := (\<lambda>argv. Exited 0 None)\<rparr>"

text \<open>
  An inventory in which the host \<^verbatim>\<open>routinator\<close> is registered, as lines 88 and 97-101
  leave it for the descriptor of the scenario.
\<close>

definition routinator_registered :: inventory where
  "routinator_registered =
     \<lparr>groups = [''all'' \<mapsto> [''routinator''], ''digitalocean'' \<mapsto> [''routinator'']],
      hosts = [''routinator''],
      vars = (\<lambda>_. Map.empty)\<rparr>"

section \<open>The wording of the specification, for comparison\<close>

text \<open>
  Following the spec's words for the command runner, "trims trailing whitespace/newlines":
  only the end of the text is trimmed.
\<close>

definition spec_trim_trailing :: "string \<Rightarrow> string" where
  "spec_trim_trailing s = rev (dropWhile is_space (rev s))"

text \<open>
  Following the spec's words for the tag parser, "split on the first occurrence of
  separator into (key, value)": the text before the first occurrence and the text after it.
\<close>

fun split_first :: "string \<Rightarrow> string \<Rightarrow> string \<times> string" where
  "split_first sep [] = ([], [])"
| "split_first sep (c # cs) =
     (if prefix sep (c # cs) then ([], drop (length sep) (c # cs))
      else (case split_first sep cs of (k, v) \<Rightarrow> (c # k, v)))"

definition spec_tag_entry :: "bool \<Rightarrow> string \<Rightarrow> string \<Rightarrow> tag_entry" where
  "spec_tag_entry split_enabled sep element =
     (if split_enabled \<and> py_in sep element
      then (case split_first sep element of (k, v) \<Rightarrow> Pair_tag k v)
      else Bare_tag element)"

text \<open>\<^verbatim>\<open>sep.join(pieces)\<close>, to state what \<^verbatim>\<open>split\<close> returns.\<close>

fun py_join :: "string \<Rightarrow> string list \<Rightarrow> string" where
  "py_join sep [] = []"
| "py_join sep [p] = p"
| "py_join sep (p # q # ps) = p @ sep @ py_join sep (q # ps)"

section \<open>Every message and variable name of the loop fails to format\<close>

lemma format_single_argument:
  "py_format msg_inspecting [a] = Inl IndexError"
  "py_format msg_querying_env [a] = Inl IndexError"
  "py_format env_pattern [a] = Inl IndexError"
  "py_format dm_var [a] = Inl IndexError"
  "py_format dm_tag_var [a] = Inl IndexError"
  "py_format msg_added [a] = Inl IndexError"
  by (simp_all add: msg_inspecting_def msg_querying_env_def env_pattern_def dm_var_def
      dm_tag_var_def msg_added_def)

lemma format_two_arguments:
  "py_format msg_parsing_tags [a, b] = Inl IndexError"
  "py_format msg_composite [a, b] = Inl IndexError"
  "py_format msg_groups [a, b] = Inl IndexError"
  "py_format msg_keyed_groups [a, b] = Inl IndexError"
  by (simp_all add: msg_parsing_tags_def msg_composite_def msg_groups_def msg_keyed_groups_def)

text \<open>
  The first statement of the loop body, line 94, raises before anything else happens, so
  the body leaves the inventory as it found it.
\<close>

lemma process_node_raises: "process_node w node s = (Inl IndexError, s)"
  by (simp add: process_node_def bnd_def debug_def lift_def format_single_argument)

lemma add_group_keeps:
  "hosts (snd (add_group g s)) = hosts s"
  "vars (snd (add_group g s)) = vars s"
  "name \<noteq> ''all'' \<Longrightarrow> groups (snd (add_group (JStr ''all'') s)) name = groups s name"
  by (cases g; simp)+

text \<open>The three ways a pass can go.\<close>

lemma populate_cases:
  "populate w s =
     (case list_machines w of
        Inl e \<Rightarrow> (Inl (AnsibleError e), snd (add_group (JStr ''all'') s))
      | Inr [] \<Rightarrow> (Inr (), snd (add_group (JStr ''all'') s))
      | Inr (n # ns) \<Rightarrow> (Inl (AnsibleError IndexError), snd (add_group (JStr ''all'') s)))"
  by (simp add: populate_def bnd_def try_except_def lift_def process_node_raises
      split: sum.splits list.splits)

subsection \<open>What the tool lists in the concrete runs\<close>

lemma list_routinator: "list_machines routinator_world = Inr [''routinator'']"
  by code_simp

lemma list_two: "list_machines two_nodes_world = Inr [''alpha'', ''beta'']"
  by code_simp

lemma list_mismatch: "list_machines mismatch_world = Inr [''node-a'']"
  by code_simp

lemma list_malformed: "list_machines malformed_world = Inr [''routinator'']"
  by code_simp

lemma list_empty: "list_machines empty_listing_world = Inr []"
  by code_simp

lemma add_all_empty:
  "snd (add_group (JStr ''all'') empty_inventory) =
     \<lparr>groups = [''all'' \<mapsto> []], hosts = [], vars = (\<lambda>_. Map.empty)\<rparr>"
  by (simp add: empty_inventory_def)

section \<open>The discovery pass\<close>

text \<open>
  Claim C1 states that in the run of the end-to-end scenario (the tool lists
  \<^verbatim>\<open>routinator\<close>, the descriptor and the env text are the ones given, \<^verbatim>\<open>split_tags\<close> is
  true and the separator is \<^verbatim>\<open>:\<close>) the pass succeeds with the host \<^verbatim>\<open>routinator\<close> in the
  groups \<^verbatim>\<open>all\<close> and \<^verbatim>\<open>digitalocean\<close> and with its variables set. The code does not do
  that: in this run the pass raises the wrapped \<^verbatim>\<open>IndexError\<close> of line 94 and the
  inventory holds the group \<^verbatim>\<open>all\<close> and nothing else.
\<close>

theorem scenario_run_fails:
  "populate routinator_world empty_inventory =
     (Inl (AnsibleError IndexError), \<lparr>groups = [''all'' \<mapsto> []], hosts = [], vars = (\<lambda>_. Map.empty)\<rparr>)
   \<and> \<not> scenario_expected (snd (populate routinator_world empty_inventory))"
  by (simp add: populate_cases list_routinator empty_inventory_def scenario_expected_def)

text \<open>
  Claim C2: whenever the tool lists at least one node, processing the first node raises
  before any host is added, because the messages and variable names are formatted with
  the field \<^verbatim>\<open>{1}\<close> and a single argument; the pass then fails with the wrapped error and
  the inventory has the hosts it had before.
\<close>

theorem populate_fails_when_nodes_listed:
  assumes "list_machines w = Inr (n # ns)"
  shows "process_node w n s = (Inl IndexError, s)
    \<and> populate w start = (Inl (AnsibleError IndexError), snd (add_group (JStr ''all'') start))
    \<and> hosts (snd (populate w start)) = hosts start
    \<and> py_format msg_inspecting [a] = Inl IndexError
    \<and> py_format env_pattern [a] = Inl IndexError
    \<and> py_format dm_var [a] = Inl IndexError
    \<and> py_format dm_tag_var [a] = Inl IndexError"
  using assms
  by (simp add: populate_cases process_node_raises add_group_keeps format_single_argument)

theorem populate_fails_when_nodes_listed_witness:
  "list_machines two_nodes_world = Inr [''alpha'', ''beta'']
   \<and> populate two_nodes_world empty_inventory =
       (Inl (AnsibleError IndexError), \<lparr>groups = [''all'' \<mapsto> []], hosts = [], vars = (\<lambda>_. Map.empty)\<rparr>)
   \<and> hosts (snd (populate two_nodes_world empty_inventory)) = []"
  using populate_fails_when_nodes_listed [OF list_two, of empty_inventory empty_inventory]
  by (simp add: list_two add_all_empty empty_inventory_def)

text \<open>
  Claim C10: when the tool lists nothing (its output is empty once stripped), the pass
  completes without error, and from the empty inventory it leaves the group \<^verbatim>\<open>all\<close>
  alone: no host, no other group, no variable.
\<close>

lemma list_machines_stripped_empty:
  assumes "subprocess w [''docker-machine'', ''ls'', ''-q''] = Exited 0 (Some out)"
    and "py_strip out = []"
  shows "list_machines w = Inr []"
  using assms by (simp add: list_machines_def run_command_def py_splitlines_def)

theorem populate_empty_listing:
  assumes "subprocess w [''docker-machine'', ''ls'', ''-q''] = Exited 0 (Some out)"
    and "py_strip out = []"
  shows "populate w empty_inventory =
     (Inr (), \<lparr>groups = [''all'' \<mapsto> []], hosts = [], vars = (\<lambda>_. Map.empty)\<rparr>)"
  using list_machines_stripped_empty [OF assms]
  by (simp add: populate_cases empty_inventory_def)

lemma empty_listing_output:
  "subprocess empty_listing_world [''docker-machine'', ''ls'', ''-q''] = Exited 0 (Some [CHR 0x0A])"
  by (simp add: empty_listing_world_def table_world_def)

lemma strip_newline: "py_strip [CHR 0x0A] = []"
  by (simp add: py_strip_def is_space_def)

theorem populate_empty_listing_witness:
  "subprocess empty_listing_world [''docker-machine'', ''ls'', ''-q''] = Exited 0 (Some [CHR 0x0A])
   \<and> py_strip [CHR 0x0A] = []
   \<and> populate empty_listing_world empty_inventory =
       (Inr (), \<lparr>groups = [''all'' \<mapsto> []], hosts = [], vars = (\<lambda>_. Map.empty)\<rparr>)"
  using populate_empty_listing [OF empty_listing_output strip_newline]
  by (simp add: empty_listing_output strip_newline)

text \<open>
  Claim C3: a pass that fails, fails with one wrapped error, and nothing of any node is
  left in the inventory: it is the inventory the pass started from with the group
  \<^verbatim>\<open>all\<close> added in line 88, so its hosts, its variables and its other groups are the
  ones it had. An error raised while a listed node is processed makes the pass fail with
  that error wrapped. (The pass has no step that undoes a change: nothing is left
  because the first statement for the first node raises before any host is added.)
\<close>

theorem populate_all_or_nothing:
  "(fst (populate w start) = Inl e \<longrightarrow>
      (\<exists>cause. e = AnsibleError cause)
      \<and> snd (populate w start) = snd (add_group (JStr ''all'') start)
      \<and> hosts (snd (populate w start)) = hosts start
      \<and> vars (snd (populate w start)) = vars start
      \<and> (\<forall>g. g \<noteq> ''all'' \<longrightarrow> groups (snd (populate w start)) g = groups start g))
   \<and> (list_machines w = Inr nodes \<and> node \<in> set nodes \<and> fst (process_node w node s) = Inl e'
        \<longrightarrow> fst (populate w start) = Inl (AnsibleError e'))"
proof (intro conjI impI)
  assume "fst (populate w start) = Inl e"
  then show "\<exists>cause. e = AnsibleError cause"
    by (auto simp: populate_cases split: sum.splits list.splits)
next
  show "snd (populate w start) = snd (add_group (JStr ''all'') start)"
    by (simp add: populate_cases split: sum.splits list.splits)
  then show "hosts (snd (populate w start)) = hosts start"
    and "vars (snd (populate w start)) = vars start"
    and "\<forall>g. g \<noteq> ''all'' \<longrightarrow> groups (snd (populate w start)) g = groups start g"
    by (simp_all add: add_group_keeps)
next
  assume a: "list_machines w = Inr nodes \<and> node \<in> set nodes \<and> fst (process_node w node s) = Inl e'"
  then have "e' = IndexError" by (simp add: process_node_raises)
  moreover from a obtain n ns where "nodes = n # ns" by (cases nodes) auto
  ultimately show "fst (populate w start) = Inl (AnsibleError e')"
    using a by (simp add: populate_cases)
qed

theorem populate_all_or_nothing_witness:
  "fst (populate malformed_world empty_inventory) = Inl (AnsibleError IndexError)
   \<and> snd (populate malformed_world empty_inventory) =
       \<lparr>groups = [''all'' \<mapsto> []], hosts = [], vars = (\<lambda>_. Map.empty)\<rparr>
   \<and> list_machines malformed_world = Inr [''routinator'']
   \<and> ''routinator'' \<in> set [''routinator'']
   \<and> fst (process_node malformed_world ''routinator'' empty_inventory) = Inl IndexError"
  using populate_all_or_nothing [of malformed_world empty_inventory "AnsibleError IndexError"
      "[''routinator'']" "''routinator''" empty_inventory IndexError]
  by (simp add: populate_cases list_malformed process_node_raises empty_inventory_def)

section \<open>Hosts and groups\<close>

text \<open>
  What lines 97-101 do when they run: for a descriptor with a machine name and a driver
  name, in an inventory that has the group \<^verbatim>\<open>all\<close>, the host key is the machine name of
  the descriptor (the node that was asked for plays no part), and the host is in \<^verbatim>\<open>all\<close>
  and in the driver's group.
\<close>

lemma register_host_membership:
  assumes "py_getitem2 attrs ''Driver'' ''MachineName'' = Inr (JStr name)" "name \<noteq> []"
    and "py_getitem attrs ''DriverName'' = Inr (JStr driver)" "driver \<noteq> []"
    and "groups s ''all'' \<noteq> None"
  shows "fst (register_host attrs s) = Inr (JStr name)
    \<and> name \<in> set (hosts (snd (register_host attrs s)))
    \<and> in_group (snd (register_host attrs s)) ''all'' name
    \<and> in_group (snd (register_host attrs s)) driver name"
  using assms
  by (auto simp: register_host_def bnd_def lift_def ret_def in_group_def insert_new_def
      split: option.splits)





text \<open>
  Claim C9 states that when the descriptor's \<^verbatim>\<open>Driver.MachineName\<close> differs from the node
  that was asked for, the descriptor's name becomes the host key and the argument of the
  env query, and no error is raised. In the run where the tool lists \<^verbatim>\<open>node-a\<close> and the
  descriptor says \<^verbatim>\<open>node-b\<close> the pass raises, and \<^verbatim>\<open>node-b\<close> is no host of the inventory.
\<close>

theorem mismatch_run_fails:
  "populate mismatch_world empty_inventory =
     (Inl (AnsibleError IndexError), \<lparr>groups = [''all'' \<mapsto> []], hosts = [], vars = (\<lambda>_. Map.empty)\<rparr>)
   \<and> ''node-b'' \<notin> set (hosts (snd (populate mismatch_world empty_inventory)))"
  by (simp add: populate_cases list_mismatch empty_inventory_def)

section \<open>Tags\<close>

subsection \<open>What str.split returns\<close>

lemma drop_sep: "sep \<noteq> [] \<Longrightarrow> drop (length sep) (c # cs) = drop (length sep - 1) cs"
  by (cases sep) simp_all

lemma split_aux_absent: "\<not> py_in sep s \<Longrightarrow> split_aux sep cur s = [cur @ s]"
  by (induction s arbitrary: cur) auto

lemma split_aux_first:
  "sep \<noteq> [] \<Longrightarrow> py_in sep s \<Longrightarrow>
     split_aux sep cur s =
       (cur @ fst (split_first sep s)) # split_aux sep [] (snd (split_first sep s))"
proof (induction s arbitrary: cur)
  case Nil
  then show ?case by simp
next
  case (Cons c cs)
  show ?case
  proof (cases "prefix sep (c # cs)")
    case True
    with Cons.prems show ?thesis by (simp add: drop_sep)
  next
    case False
    with Cons.prems have "py_in sep cs" by simp
    from Cons.IH [OF Cons.prems(1) this, of "cur @ [c]"] False
    show ?thesis by (simp split: prod.splits)
  qed
qed

lemma split_aux_not_Nil: "split_aux sep cur s \<noteq> []"
  by (induction s arbitrary: cur) auto

text \<open>Joining the pieces with the separator gives the text back.\<close>

lemma join_split_aux: "sep \<noteq> [] \<Longrightarrow> py_join sep (split_aux sep cur s) = cur @ s"
proof (induction sep cur s rule: split_aux.induct)
  case (1 sep cur)
  then show ?case by simp
next
  case (2 sep cur c cs)
  show ?case
  proof (cases "prefix sep (c # cs)")
    case True
    then obtain rest where r: "c # cs = sep @ rest" by (auto simp: prefix_def)
    with 2 have d: "drop (length sep - 1) cs = rest"
      by (metis append_eq_conv_conj drop_sep)
    obtain p ps where ps: "split_aux sep [] rest = p # ps"
      using split_aux_not_Nil [of sep "[]" rest] by (cases "split_aux sep [] rest") auto
    from 2 True d have j: "py_join sep (split_aux sep [] rest) = rest" by simp
    from True d have "split_aux sep cur (c # cs) = cur # split_aux sep [] rest" by simp
    then have "py_join sep (split_aux sep cur (c # cs)) = cur @ sep @ rest"
      using ps j by simp
    then show ?thesis using r by simp
  next
    case False
    with 2 show ?thesis by simp
  qed
qed

lemma split_aux_char_free:
  "x \<notin> set cur \<Longrightarrow> p \<in> set (split_aux [x] cur s) \<Longrightarrow> x \<notin> set p"
  by (induction s arbitrary: cur) (fastforce split: if_splits)+

subsection \<open>The entry of one element\<close>

lemma tag_entry_bare:
  "\<not> (en \<and> py_in sep e) \<Longrightarrow> tag_entry en sep e = Inr (Bare_tag e)"
  by (auto simp: tag_entry_def)

lemma tag_entry_pair:
  assumes "en" "sep \<noteq> []" "py_in sep e" "\<not> py_in sep (snd (split_first sep e))"
  shows "tag_entry en sep e = Inr (Pair_tag (fst (split_first sep e)) (snd (split_first sep e)))"
  using assms
  by (simp add: tag_entry_def py_split_def split_aux_first [of sep e "[]"] split_aux_absent)

lemma set_tag_var_unpack_error:
  "tag_entry (split_tags w) (split_separator w) kv_pair = Inl err \<Longrightarrow>
     set_tag_var w host_id kv_pair s = (Inl err, s)"
  by (simp add: set_tag_var_def bnd_def lift_def)

text \<open>
  Claim C5 states that the raw string is split on \<^verbatim>\<open>,\<close> and that every element in which
  splitting is enabled and the separator occurs is split on the first occurrence of the
  separator into a key and a value, every other element being a bare tag. That fails
  for an element in which the separator occurs twice: line 133 splits at every
  occurrence and unpacks into two names, so for \<^verbatim>\<open>a:b:c\<close> it raises \<^verbatim>\<open>ValueError\<close>, and so
  do lines 132-136 as a whole, where the claim gives the pair of \<^verbatim>\<open>a\<close> and \<^verbatim>\<open>b:c\<close>. It
  fails for the empty separator too, which occurs in every element and which
  \<^verbatim>\<open>split\<close> refuses.
\<close>

theorem tag_split_first_counterexample:
  "spec_tag_entry True '':'' ''a:b:c'' = Pair_tag ''a'' ''b:c''
   \<and> tag_entry True '':'' ''a:b:c'' = Inl ValueError
   \<and> set_tag_var routinator_world (JStr ''routinator'') ''a:b:c'' routinator_registered
        = (Inl ValueError, routinator_registered)
   \<and> spec_tag_entry True [] ''a'' = Pair_tag [] ''a''
   \<and> tag_entry True [] ''a'' = Inl ValueError"
  by (simp add: spec_tag_entry_def tag_entry_def py_split_def set_tag_var_def bnd_def lift_def
      routinator_world_def table_world_def)

text \<open>
  Claim C5 as amended, for what line 131 returns and what lines 132, 133 and 135 decide
  for one element: the raw string is split on \<^verbatim>\<open>,\<close> (the elements joined by \<^verbatim>\<open>,\<close> are
  the raw string, and none contains a \<^verbatim>\<open>,\<close>); an element for which splitting is disabled
  or in which the separator does not occur is taken as a bare tag; an element in which
  splitting is enabled and the non-empty separator occurs, and does not occur again
  after its first occurrence, is split at it into the key before and the value after;
  the elements of \<^verbatim>\<open>a,b:c\<close> are \<^verbatim>\<open>a\<close> and \<^verbatim>\<open>b:c\<close>, of which \<^verbatim>\<open>a\<close> is bare, and \<^verbatim>\<open>b:c\<close> is
  bare with splitting disabled and the pair of \<^verbatim>\<open>b\<close> and \<^verbatim>\<open>c\<close> with splitting on \<^verbatim>\<open>:\<close>.
\<close>

theorem tag_entries_of_well_formed_elements:
  "(\<exists>elements. tags_split (JStr raw) = Inr elements
        \<and> py_join '','' elements = raw
        \<and> (\<forall>e \<in> set elements. CHR '','' \<notin> set e))
   \<and> (\<not> (en \<and> py_in sep e) \<longrightarrow> tag_entry en sep e = Inr (Bare_tag e))
   \<and> (en \<and> sep \<noteq> [] \<and> py_in sep e \<and> \<not> py_in sep (snd (split_first sep e)) \<longrightarrow>
        tag_entry en sep e = Inr (spec_tag_entry en sep e)
        \<and> spec_tag_entry en sep e = Pair_tag (fst (split_first sep e)) (snd (split_first sep e)))
   \<and> tags_split (JStr ''a,b:c'') = Inr [''a'', ''b:c'']
   \<and> tag_entry False '':'' ''a'' = Inr (Bare_tag ''a'')
   \<and> tag_entry False '':'' ''b:c'' = Inr (Bare_tag ''b:c'')
   \<and> tag_entry True '':'' ''a'' = Inr (Bare_tag ''a'')
   \<and> tag_entry True '':'' ''b:c'' = Inr (Pair_tag ''b'' ''c'')"
proof (intro conjI impI)
  have "CHR '','' \<notin> set e" if "e \<in> set (split_aux '','' [] raw)" for e
    using split_aux_char_free [of "CHR '',''" "[]" e raw] that by simp
  then show "\<exists>elements. tags_split (JStr raw) = Inr elements
        \<and> py_join '','' elements = raw \<and> (\<forall>e \<in> set elements. CHR '','' \<notin> set e)"
    by (simp add: tags_split_def py_split_def join_split_aux)
  show "tag_entry en sep e = Inr (Bare_tag e)" if "\<not> (en \<and> py_in sep e)"
    using that by (rule tag_entry_bare)
  show "tag_entry en sep e = Inr (spec_tag_entry en sep e)"
    if "en \<and> sep \<noteq> [] \<and> py_in sep e \<and> \<not> py_in sep (snd (split_first sep e))"
    using that tag_entry_pair [of en sep e] by (simp add: spec_tag_entry_def split: prod.splits)
  show "spec_tag_entry en sep e = Pair_tag (fst (split_first sep e)) (snd (split_first sep e))"
    if "en \<and> sep \<noteq> [] \<and> py_in sep e \<and> \<not> py_in sep (snd (split_first sep e))"
    using that by (simp add: spec_tag_entry_def split: prod.splits)
  show "tags_split (JStr ''a,b:c'') = Inr [''a'', ''b:c'']"
    by (simp add: tags_split_def py_split_def)
  show "tag_entry False '':'' ''a'' = Inr (Bare_tag ''a'')"
    and "tag_entry False '':'' ''b:c'' = Inr (Bare_tag ''b:c'')"
    and "tag_entry True '':'' ''a'' = Inr (Bare_tag ''a'')"
    and "tag_entry True '':'' ''b:c'' = Inr (Pair_tag ''b'' ''c'')"
    by (simp_all add: tag_entry_def py_split_def)
qed

theorem tag_entries_of_well_formed_elements_witness:
  "tags_split (JStr ''a,b:c'') = Inr [''a'', ''b:c'']
   \<and> py_join '','' [''a'', ''b:c''] = ''a,b:c''
   \<and> py_in '':'' ''a'' = False
   \<and> tag_entry True '':'' ''a'' = Inr (Bare_tag ''a'')
   \<and> py_in '':'' ''b:c'' = True
   \<and> split_first '':'' ''b:c'' = (''b'', ''c'')
   \<and> py_in '':'' ''c'' = False
   \<and> tag_entry True '':'' ''b:c'' = Inr (Pair_tag ''b'' ''c'')"
  using tag_entries_of_well_formed_elements [of "''a,b:c''" True "'':''" "''a''"]
    tag_entries_of_well_formed_elements [of "''a,b:c''" True "'':''" "''b:c''"]
  by (simp add: spec_tag_entry_def)

subsection \<open>The variables of the tags\<close>

text \<open>
  Whatever the element, lines 132-136 raise and leave the inventory as it was:
  \<^verbatim>\<open>'dm_tag_{1}'.format(...)\<close> is evaluated before \<^verbatim>\<open>set_variable\<close> is called.
\<close>

lemma set_tag_var_raises:
  "snd (set_tag_var w host_id kv_pair s) = s
   \<and> (fst (set_tag_var w host_id kv_pair s) = Inl IndexError
        \<or> fst (set_tag_var w host_id kv_pair s) = Inl ValueError)"
  by (auto simp: set_tag_var_def bnd_def lift_def tag_entry_def py_split_def
      format_single_argument split: sum.splits list.splits tag_entry.splits)

text \<open>
  Claim C6 states that a bare tag sets the variable \<^verbatim>\<open>dm_tag_<name>\<close> without a value and
  that a pair sets \<^verbatim>\<open>dm_tag_<key>\<close> to the value. For the registered host \<^verbatim>\<open>routinator\<close>,
  the pair \<^verbatim>\<open>env:prod\<close> (splitting enabled) and the bare tag \<^verbatim>\<open>web\<close> (splitting disabled)
  both raise \<^verbatim>\<open>IndexError\<close>, and neither variable is set.
\<close>

theorem tag_variables_never_set:
  "set_tag_var routinator_world (JStr ''routinator'') ''env:prod'' routinator_registered
     = (Inl IndexError, routinator_registered)
   \<and> set_tag_var empty_listing_world (JStr ''routinator'') ''web'' routinator_registered
     = (Inl IndexError, routinator_registered)
   \<and> vars routinator_registered (Host_entity ''routinator'') ''dm_tag_env'' = None
   \<and> vars routinator_registered (Host_entity ''routinator'') ''dm_tag_web'' = None"
  by (simp add: set_tag_var_def bnd_def lift_def tag_entry_def py_split_def
      format_single_argument routinator_world_def empty_listing_world_def table_world_def
      routinator_registered_def)

section \<open>The env text\<close>

lemma set_env_var_raises:
  "set_env_var w host_id env_out name s = (Inl IndexError, s)"
  by (simp add: set_env_var_def env_var_value_def bnd_def lift_def format_single_argument)

text \<open>
  Claim C7 states that from an env text with the four lines each of the four values is
  extracted, that a name that is not found makes the extraction fail naming it, and
  that such a failure ends the processing of the current node only. With the env text
  of the scenario, which has all four lines (a search with the pattern for
  \<^verbatim>\<open>DOCKER_HOST\<close> finds its value), line 123 extracts none of the four values: building
  the search pattern raises \<^verbatim>\<open>IndexError\<close> for each name, lines 122-124 raise with it, and
  \<^verbatim>\<open>dm_DOCKER_HOST\<close> is not set for the registered host.
\<close>

theorem env_values_never_extracted:
  "re_search routinator_world (pattern_for ''DOCKER_HOST'') (py_strip routinator_env)
     = Some ''tcp://134.209.204.160:2376''
   \<and> env_var_value routinator_world (py_strip routinator_env) ''DOCKER_TLS_VERIFY'' = Inl IndexError
   \<and> env_var_value routinator_world (py_strip routinator_env) ''DOCKER_HOST'' = Inl IndexError
   \<and> env_var_value routinator_world (py_strip routinator_env) ''DOCKER_CERT_PATH'' = Inl IndexError
   \<and> env_var_value routinator_world (py_strip routinator_env) ''DOCKER_MACHINE_NAME'' = Inl IndexError
   \<and> set_env_vars routinator_world (JStr ''routinator'') (py_strip routinator_env)
        routinator_registered = (Inl IndexError, routinator_registered)
   \<and> vars routinator_registered (Host_entity ''routinator'') ''dm_DOCKER_HOST'' = None"
proof -
  have "re_search routinator_world (pattern_for ''DOCKER_HOST'') (py_strip routinator_env)
     = Some ''tcp://134.209.204.160:2376''"
    by code_simp
  then show ?thesis
    by (simp add: env_var_value_def set_env_vars_def env_var_names_def set_env_var_raises
        format_single_argument routinator_registered_def)
qed

section \<open>_run_command\<close>

lemma strip_decomposition:
  "\<exists>pre post. s = pre @ py_strip s @ post
     \<and> list_all is_space pre \<and> list_all is_space post"
proof -
  let ?t = "rev (dropWhile is_space (rev s))"
  have s: "s = ?t @ rev (takeWhile is_space (rev s))"
    by (metis rev_append rev_rev_ident takeWhile_dropWhile_id)
  have t: "?t = takeWhile is_space ?t @ py_strip s" by (simp add: py_strip_def)
  have "s = takeWhile is_space ?t @ py_strip s @ rev (takeWhile is_space (rev s))"
    using s t by (metis append.assoc)
  moreover have "list_all is_space (takeWhile is_space ?t)"
    by (auto simp: list_all_iff dest: set_takeWhileD)
  moreover have "list_all is_space (rev (takeWhile is_space (rev s)))"
    by (auto simp: list_all_iff dest: set_takeWhileD)
  ultimately show ?thesis by blast
qed

lemma strip_ends:
  assumes "py_strip s \<noteq> []"
  shows "\<not> is_space (hd (py_strip s))" and "\<not> is_space (last (py_strip s))"
proof -
  let ?d = "dropWhile is_space (rev s)"
  show "\<not> is_space (hd (py_strip s))"
    using assms hd_dropWhile [of is_space "rev ?d"] by (simp add: py_strip_def)
  have "py_strip s = dropWhile is_space (rev ?d)" by (simp only: py_strip_def)
  with assms have d: "?d \<noteq> []" by (metis dropWhile.simps(1) rev.simps(1))
  have "rev ?d = takeWhile is_space (rev ?d) @ py_strip s" by (simp add: py_strip_def)
  then have "last (rev ?d) = last (py_strip s)" using assms by (metis last_appendR)
  moreover have "last (rev ?d) = hd ?d" by (simp add: last_rev)
  moreover have "\<not> is_space (hd ?d)" using d by (rule hd_dropWhile)
  ultimately show "\<not> is_space (last (py_strip s))" by simp
qed

lemma indented_output:
  "subprocess indented_world [''docker-machine'', ''ls'', ''-q''] =
     Exited 0 (Some (''  routinator '' @ [CHR 0x0A]))"
  by (simp add: indented_world_def table_world_def)

lemma indented_other:
  "subprocess indented_world [''docker-machine'', ''inspect'', ''routinator''] = Exited 1 (Some [])"
  by (simp add: indented_world_def table_world_def)

text \<open>
  Claim C8 states that \<^verbatim>\<open>run\<close> returns the output of the program with trailing
  whitespace trimmed and nothing else removed, leading whitespace being preserved. For
  an output that starts with two spaces, \<^verbatim>\<open>_run_command\<close> returns the text without them.
\<close>

theorem run_command_leading_space_counterexample:
  "subprocess indented_world [''docker-machine'', ''ls'', ''-q''] =
     Exited 0 (Some (''  routinator '' @ [CHR 0x0A]))
   \<and> run_command indented_world [''ls'', ''-q''] = Inr ''routinator''
   \<and> spec_trim_trailing (''  routinator '' @ [CHR 0x0A]) = ''  routinator''
   \<and> run_command indented_world [''ls'', ''-q'']
        \<noteq> Inr (spec_trim_trailing (''  routinator '' @ [CHR 0x0A]))"
  by (simp add: indented_output run_command_def py_strip_def spec_trim_trailing_def is_space_def)

text \<open>
  Claim C8 as amended: \<^verbatim>\<open>_run_command\<close> runs \<^verbatim>\<open>docker-machine\<close> with the arguments
  appended; when the program exits with status 0 and its output decodes, the result is
  the output with the whitespace at both ends removed and nothing else (the output is
  whitespace, then the result, then whitespace, and a result that is not empty neither
  starts nor ends with whitespace); it raises when the program is not found, when the
  exit status is not 0 and when the output does not decode.
\<close>

theorem run_command_strips_both_ends:
  "(subprocess w (''docker-machine'' # args) = Exited 0 (Some out) \<longrightarrow>
      run_command w args = Inr (py_strip out)
      \<and> (\<exists>pre post. out = pre @ py_strip out @ post
            \<and> list_all is_space pre \<and> list_all is_space post)
      \<and> (py_strip out \<noteq> [] \<longrightarrow>
            \<not> is_space (hd (py_strip out)) \<and> \<not> is_space (last (py_strip out))))
   \<and> (subprocess w (''docker-machine'' # args) = NotFound \<longrightarrow>
        run_command w args = Inl FileNotFoundError)
   \<and> (subprocess w (''docker-machine'' # args) = Exited rc text \<and> rc \<noteq> 0 \<longrightarrow>
        run_command w args = Inl CalledProcessError)
   \<and> (subprocess w (''docker-machine'' # args) = Exited 0 None \<longrightarrow>
        run_command w args = Inl UnicodeDecodeError)"
  using strip_decomposition [of out] strip_ends [of out]
  by (simp add: run_command_def)

theorem run_command_strips_both_ends_witness:
  "subprocess indented_world [''docker-machine'', ''ls'', ''-q''] =
     Exited 0 (Some (''  routinator '' @ [CHR 0x0A]))
   \<and> run_command indented_world [''ls'', ''-q''] = Inr ''routinator''
   \<and> subprocess missing_tool_world [''docker-machine'', ''ls'', ''-q''] = NotFound
   \<and> run_command missing_tool_world [''ls'', ''-q''] = Inl FileNotFoundError
   \<and> subprocess indented_world [''docker-machine'', ''inspect'', ''routinator''] = Exited 1 (Some [])
   \<and> run_command indented_world [''inspect'', ''routinator''] = Inl CalledProcessError
   \<and> subprocess undecodable_world [''docker-machine'', ''ls'', ''-q''] = Exited 0 None
   \<and> run_command undecodable_world [''ls'', ''-q''] = Inl UnicodeDecodeError"
  using run_command_strips_both_ends
          [of indented_world "[''ls'', ''-q'']" "''  routinator '' @ [CHR 0x0A]" 1 "Some []"]
        run_command_strips_both_ends
          [of missing_tool_world "[''ls'', ''-q'']" "[]" 1 "Some []"]
        run_command_strips_both_ends
          [of indented_world "[''inspect'', ''routinator'']" "[]" 1 "Some []"]
        run_command_strips_both_ends
          [of undecodable_world "[''ls'', ''-q'']" "[]" 1 "Some []"]
  by (simp add: indented_output indented_other py_strip_def is_space_def
      missing_tool_world_def undecodable_world_def)

end
